theory Spec2Isabelle
  imports Complex_Main "HOL-Library.Word" "HOL-Library.Sublist"
begin

section \<open>Data model\<close>

text \<open>
  The CSV pipeline of \<^verbatim>\<open>src/main.py\<close>: encoding detection, the resilient reader, the
  numeric normaliser, the validator and the orchestrator. The code is Python on top of
  pandas, chardet and rich. Every call into a library or the operating system is a
  field of the record \<open>env\<close> (a function of the bytes or values it is given), so
  each theorem holds for whatever the library computes. Exceptions are values: a function that can raise returns
  \<open>exn + 'a\<close>.

  \<^verbatim>\<open>ui.logger\<close> hands its text to a \<^verbatim>\<open>RichHandler(markup=True)\<close>, which parses it as
  markup before printing and raises \<^verbatim>\<open>MarkupError\<close> on a closing tag that closes nothing.
  The log calls whose text holds a column label, a cell value or the text of an
  exception are therefore part of the model (\<open>logger\<close> below). The other calls print
  a fixed text, the name of the file (which cannot hold the \<^verbatim>\<open>/\<close> of a closing tag), an
  encoding name, a count or a message of pandas' parser; they are left out.
\<close>

type_synonym bytes = "8 word list"

text \<open>The exceptions the code meets. \<^verbatim>\<open>KeyError\<close> carries the label that was looked up,
  an exception of a library its text.\<close>

datatype exn =
  FileNotFoundError | PermissionError | KeyError string | IndexError | AttributeError
  | ValueError | MarkupError | LibraryError string

text \<open>\<^verbatim>\<open>pathlib.Path\<close>, as far as the code uses it: the directory, and the final
  component split into stem and suffix.\<close>

record path =
  parent :: string
  stem :: string
  suffix :: string

type_synonym filesystem = "path \<rightharpoonup> bytes"

text \<open>A float64 that is not NaN: a finite value (every finite float is a rational) or
  an infinity. NaN is the missing cell.\<close>

datatype fnum = Finite rat | PosInf | NegInf

datatype cell = NaN | IntV int | FloatV fnum | BoolV bool | StrV string

datatype dtype = Object | Int64 | UInt64 | Float64 | BoolT | Datetime64

text \<open>What a modelled log call is about; the text is formatted from these values.\<close>

datatype message =
  TypeChange string dtype dtype
  | DataMismatch nat string cell cell
  | ValidationError exn
  | FailedToProcess string exn

record column =
  name :: string
  dtype :: dtype
  cells :: "cell list"

text \<open>A DataFrame: the length of its index and its columns in order.\<close>

record table =
  nrows :: nat
  columns :: "column list"

datatype engine = C | Python
datatype bad_lines = Error | Warn | Skip
datatype quoting = QUOTE_MINIMAL | QUOTE_ALL | QUOTE_NONNUMERIC | QUOTE_NONE

text \<open>The keyword arguments of \<^verbatim>\<open>pd.read_csv\<close> that the code varies.\<close>

record strategy =
  engine :: engine
  on_bad_lines :: bad_lines
  quoting :: quoting
  delimiter :: char

text \<open>What \<^verbatim>\<open>pd.read_csv\<close> does: a table, or one of the exceptions the reader
  tells apart (\<^verbatim>\<open>UnicodeDecodeError\<close>/\<^verbatim>\<open>UnicodeError\<close>, \<^verbatim>\<open>pd.errors.ParserError\<close> with its
  message, anything else).\<close>

datatype read_outcome =
  Parsed table | UnicodeErr | ParserError string | OtherError

text \<open>What the \<^verbatim>\<open>with pd.ExcelWriter(...)\<close> block does: the artifact is written, or the
  block raises and leaves behind whatever the writer had saved (possibly nothing).\<close>

datatype write_outcome = Written bytes | WriteFailed exn "bytes option"

record env =
  chardet_detect :: "bytes \<Rightarrow> string option \<times> rat"
  pd_read_csv :: "bytes \<Rightarrow> string \<Rightarrow> strategy \<Rightarrow> read_outcome"
  pd_read_excel :: "bytes \<Rightarrow> exn + table"
  pd_to_numeric :: "cell \<Rightarrow> fnum option"
  to_numeric_series :: "fnum option list \<Rightarrow> dtype \<times> cell list"
  int_cast_overflow :: "rat \<Rightarrow> int"
  int_to_float :: "int \<Rightarrow> rat"
  float_diff_exceeds :: "rat \<Rightarrow> rat \<Rightarrow> bool"
  scalar_str :: "cell \<Rightarrow> string"
  to_excel :: "table \<Rightarrow> write_outcome"
  markup_error :: "message \<Rightarrow> bool"
  may_unlink :: "path \<Rightarrow> bool"

record ValidationResult =
  dimensions_match :: bool
  columns_match :: bool
  data_types_preserved :: bool
  sample_data_match :: bool

definition is_valid :: "ValidationResult \<Rightarrow> bool" where
  "is_valid v =
     (dimensions_match v \<and> columns_match v \<and> data_types_preserved v \<and> sample_data_match v)"

definition all_false :: ValidationResult where
  "all_false = \<lparr>dimensions_match = False, columns_match = False,
                 data_types_preserved = False, sample_data_match = False\<rparr>"

text \<open>A modelled call of \<^verbatim>\<open>ui.logger\<close>: it prints, or the handler's markup parser
  raises.\<close>

definition logger :: "env \<Rightarrow> message \<Rightarrow> exn + unit" where
  "logger E m = (if markup_error E m then Inl MarkupError else Inr ())"

section \<open>Encoding detector\<close>

text \<open>The decision of \<^verbatim>\<open>detect_file_encoding\<close> on the detector's answer:
  \<^verbatim>\<open>if detected_encoding and confidence > 0.7\<close>. Python's \<^verbatim>\<open>and\<close> tests the truth value
  of the name, so \<^verbatim>\<open>None\<close> and the empty string both fall through to the default; the
  confidence is not looked at then.\<close>

definition choose_encoding :: "string option \<times> rat \<Rightarrow> string" where
  "choose_encoding result =
     (case fst result of
        None \<Rightarrow> ''utf-8''
      | Some detected_encoding \<Rightarrow>
          if detected_encoding \<noteq> [] \<and> snd result > 7 / 10 then detected_encoding
          else ''utf-8'')"

text \<open>\<^verbatim>\<open>open(file_path, 'rb')\<close> raises when the file is not there; the sample is the
  first 100000 bytes.\<close>

definition detect_file_encoding :: "env \<Rightarrow> filesystem \<Rightarrow> path \<Rightarrow> exn + string" where
  "detect_file_encoding E fs file_path =
     (case fs file_path of
        None \<Rightarrow> Inl FileNotFoundError
      | Some content \<Rightarrow> Inr (choose_encoding (chardet_detect E (take 100000 content))))"

section \<open>Resilient CSV reader\<close>

text \<open>\<^verbatim>\<open>try_parse_csv_with_strategy\<close>: any exception of the parse is \<^verbatim>\<open>None\<close>.\<close>

definition try_parse_csv_with_strategy ::
    "env \<Rightarrow> bytes \<Rightarrow> string \<Rightarrow> strategy \<Rightarrow> table option" where
  "try_parse_csv_with_strategy E content encoding s =
     (case pd_read_csv E content encoding s of Parsed df \<Rightarrow> Some df | _ \<Rightarrow> None)"

text \<open>The first parse of each encoding passes no engine, policy or quoting: pandas'
  defaults.\<close>

definition default_strategy :: strategy where
  "default_strategy =
     \<lparr>engine = C, on_bad_lines = Error, quoting = QUOTE_MINIMAL, delimiter = CHR '',''\<rparr>"

definition strategies :: "strategy list" where
  "strategies =
     [\<lparr>engine = Python, on_bad_lines = Skip, quoting = QUOTE_MINIMAL, delimiter = CHR '',''\<rparr>,
      \<lparr>engine = Python, on_bad_lines = Warn, quoting = QUOTE_MINIMAL, delimiter = CHR '',''\<rparr>,
      \<lparr>engine = C, on_bad_lines = Error, quoting = QUOTE_ALL, delimiter = CHR '',''\<rparr>,
      \<lparr>engine = C, on_bad_lines = Error, quoting = QUOTE_NONE, delimiter = CHR '',''\<rparr>,
      \<lparr>engine = Python, on_bad_lines = Warn, quoting = QUOTE_ALL, delimiter = CHR '',''\<rparr>]"

text \<open>\<^verbatim>\<open>str.lower\<close> on the ASCII letters of a message, and \<^verbatim>\<open>needle in haystack\<close>.\<close>

definition lower_char :: "char \<Rightarrow> char" where
  "lower_char c =
     (let n = (of_char c :: nat) in if 65 \<le> n \<and> n \<le> 90 then char_of (n + 32) else c)"

definition lower :: "string \<Rightarrow> string" where
  "lower s = map lower_char s"

fun contains :: "string \<Rightarrow> string \<Rightarrow> bool" where
  "contains needle [] = (needle = [])"
| "contains needle (c # cs) = (prefix needle (c # cs) \<or> contains needle cs)"

definition field_count_message :: "string \<Rightarrow> bool" where
  "field_count_message error_msg =
     (contains ''expected'' (lower error_msg) \<and> contains ''fields'' (lower error_msg))"

text \<open>The inner loop \<^verbatim>\<open>for strategy_name, *args in strategies\<close>.\<close>

fun try_strategies :: "env \<Rightarrow> bytes \<Rightarrow> string \<Rightarrow> strategy list \<Rightarrow> table option" where
  "try_strategies E content enc [] = None"
| "try_strategies E content enc (s # ss) =
     (case try_parse_csv_with_strategy E content enc s of
        Some df \<Rightarrow> Some df
      | None \<Rightarrow> try_strategies E content enc ss)"

text \<open>The body of the outer loop for one encoding: \<open>Some df\<close> is \<^verbatim>\<open>return df\<close>,
  \<open>None\<close> is \<^verbatim>\<open>continue\<close>.\<close>

definition try_encoding :: "env \<Rightarrow> bytes \<Rightarrow> string \<Rightarrow> table option" where
  "try_encoding E content enc =
     (case pd_read_csv E content enc default_strategy of
        Parsed df \<Rightarrow> Some df
      | UnicodeErr \<Rightarrow> None
      | ParserError error_msg \<Rightarrow>
          if field_count_message error_msg
          then try_strategies E content enc strategies
          else None
      | OtherError \<Rightarrow> None)"

text \<open>The outer loop \<^verbatim>\<open>for enc in encodings_to_try\<close>, and \<^verbatim>\<open>return None\<close> after it.\<close>

fun try_encodings :: "env \<Rightarrow> bytes \<Rightarrow> string list \<Rightarrow> table option" where
  "try_encodings E content [] = None"
| "try_encodings E content (enc # encs) =
     (case try_encoding E content enc of
        Some df \<Rightarrow> Some df
      | None \<Rightarrow> try_encodings E content encs)"

text \<open>\<^verbatim>\<open>list(dict.fromkeys(xs))\<close>: a key is inserted when first seen and keeps its
  place.\<close>

fun fromkeys :: "string list \<Rightarrow> string list \<Rightarrow> string list" where
  "fromkeys seen [] = seen"
| "fromkeys seen (k # ks) = fromkeys (if k \<in> set seen then seen else seen @ [k]) ks"

definition encodings_to_try :: "string \<Rightarrow> string list" where
  "encodings_to_try encoding =
     fromkeys [] [encoding, ''utf-8'', ''latin-1'', ''cp1252'', ''iso-8859-1'']"

definition read_csv_with_encoding :: "env \<Rightarrow> filesystem \<Rightarrow> path \<Rightarrow> exn + table option" where
  "read_csv_with_encoding E fs file_path =
     (case detect_file_encoding E fs file_path of
        Inl e \<Rightarrow> Inl e
      | Inr encoding \<Rightarrow>
          (case fs file_path of
             None \<Rightarrow> Inl FileNotFoundError
           | Some content \<Rightarrow> Inr (try_encodings E content (encodings_to_try encoding))))"

section \<open>Numeric precision normaliser\<close>

text \<open>\<^verbatim>\<open>pd.to_numeric(series, errors='coerce')\<close>, value by value: a missing cell stays
  NaN (\<open>None\<close> here); what any other value becomes is pandas' business (\<open>None\<close>
  when it does not parse). The object columns of \<^verbatim>\<open>read_csv\<close> hold strings and NaN.\<close>

definition to_numeric :: "env \<Rightarrow> cell \<Rightarrow> fnum option" where
  "to_numeric E c = (case c of NaN \<Rightarrow> None | _ \<Rightarrow> pd_to_numeric E c)"

text \<open>\<^verbatim>\<open>numeric_col.astype(int)\<close>: pandas raises \<^verbatim>\<open>IntCastingNaNError\<close> (a
  \<^verbatim>\<open>ValueError\<close>) when a value is NaN or infinite; a finite value is truncated towards
  zero, and one outside the int64 range becomes whatever the platform's cast gives
  (\<open>int_cast_overflow\<close>).\<close>

definition truncate :: "rat \<Rightarrow> int" where
  "truncate q = (if q < 0 then \<lceil>q\<rceil> else \<lfloor>q\<rfloor>)"

definition cast_finite :: "env \<Rightarrow> rat \<Rightarrow> int" where
  "cast_finite E q =
     (if - (2 ^ 63) \<le> q \<and> q < 2 ^ 63 then truncate q else int_cast_overflow E q)"

fun cast_int :: "env \<Rightarrow> fnum option \<Rightarrow> exn + int" where
  "cast_int E (Some (Finite q)) = Inr (cast_finite E q)"
| "cast_int E _ = Inl ValueError"

fun astype_int :: "env \<Rightarrow> fnum option list \<Rightarrow> exn + int list" where
  "astype_int E [] = Inr []"
| "astype_int E (x # xs) =
     (case cast_int E x of
        Inl e \<Rightarrow> Inl e
      | Inr n \<Rightarrow> (case astype_int E xs of Inl e \<Rightarrow> Inl e | Inr ns \<Rightarrow> Inr (n # ns)))"

text \<open>\<^verbatim>\<open>(numeric_col.notna() & (numeric_col == numeric_col.astype(int))).all()\<close>: the
  cast is evaluated first and may raise.\<close>

definition all_integers :: "env \<Rightarrow> fnum option list \<Rightarrow> exn + bool" where
  "all_integers E numeric_col =
     (case astype_int E numeric_col of
        Inl e \<Rightarrow> Inl e
      | Inr ints \<Rightarrow>
          Inr (list_all (\<lambda>(x, n). x \<noteq> None \<and> x = Some (Finite (of_int n)))
                 (zip numeric_col ints)))"

text \<open>\<^verbatim>\<open>df_copy[col] = numeric_col\<close>: the column takes the dtype and the values pandas
  gave the coerced series (float64, int64 or uint64).\<close>

definition numeric_form :: "env \<Rightarrow> column \<Rightarrow> column" where
  "numeric_form E col =
     (case to_numeric_series E (map (to_numeric E) (cells col)) of
        (d, values) \<Rightarrow> col\<lparr>dtype := d, cells := values\<rparr>)"

text \<open>The body of the loop of \<^verbatim>\<open>preserve_numeric_precision\<close> for one column. Both
  \<^verbatim>\<open>continue\<close> statements and the \<^verbatim>\<open>except (ValueError, TypeError)\<close> handler leave the
  column as it is.\<close>

definition preserve_column :: "env \<Rightarrow> column \<Rightarrow> column" where
  "preserve_column E col =
     (if dtype col = Object then
        (let numeric_col = map (to_numeric E) (cells col) in
         if \<not> list_all (\<lambda>x. x = None) numeric_col then
           (let non_null_original = filter (\<lambda>c. c \<noteq> NaN) (cells col);
                non_null_numeric = filter (\<lambda>x. x \<noteq> None) numeric_col in
            if length non_null_numeric = length non_null_original then
              (case all_integers E numeric_col of
                 Inl e \<Rightarrow> col
               | Inr True \<Rightarrow> col
               | Inr False \<Rightarrow> numeric_form E col)
            else col)
         else col)
      else col)"

text \<open>The loop runs over the labels and reads \<^verbatim>\<open>df_copy[col].dtype\<close>. With a label
  that occurs twice \<^verbatim>\<open>df_copy[col]\<close> is a DataFrame, which has no \<^verbatim>\<open>dtype\<close>: the
  function raises, outside its own \<^verbatim>\<open>try\<close>.\<close>

definition preserve_numeric_precision :: "env \<Rightarrow> table \<Rightarrow> exn + table" where
  "preserve_numeric_precision E df =
     (if distinct (map name (columns df))
      then Inr (df\<lparr>columns := map (preserve_column E) (columns df)\<rparr>)
      else Inl AttributeError)"

section \<open>Conversion validator\<close>

definition shape :: "table \<Rightarrow> nat \<times> nat" where
  "shape df = (nrows df, length (columns df))"

definition labels :: "table \<Rightarrow> string list" where
  "labels df = map name (columns df)"

text \<open>\<^verbatim>\<open>df[col]\<close> used as a Series: \<^verbatim>\<open>KeyError\<close> without such a label, and no Series
  when the label occurs more than once.\<close>

definition getitem :: "table \<Rightarrow> string \<Rightarrow> exn + column" where
  "getitem df col =
     (case filter (\<lambda>c. name c = col) (columns df) of
        [] \<Rightarrow> Inl (KeyError col)
      | [c] \<Rightarrow> Inr c
      | _ \<Rightarrow> Inl AttributeError)"

definition is_numeric_dtype :: "dtype \<Rightarrow> bool" where
  "is_numeric_dtype d = (d = Int64 \<or> d = UInt64 \<or> d = Float64 \<or> d = BoolT)"

text \<open>The loop over \<^verbatim>\<open>df_csv.columns\<close> that computes \<^verbatim>\<open>data_types_preserved\<close>; a
  type change is logged with the label and the two dtypes.\<close>

fun check_dtypes :: "env \<Rightarrow> table \<Rightarrow> table \<Rightarrow> string list \<Rightarrow> bool \<Rightarrow> exn + bool" where
  "check_dtypes E df_csv df_xlsx [] preserved = Inr preserved"
| "check_dtypes E df_csv df_xlsx (col # cols) preserved =
     (case getitem df_csv col of
        Inl e \<Rightarrow> Inl e
      | Inr c \<Rightarrow>
          (case getitem df_xlsx col of
             Inl e \<Rightarrow> Inl e
           | Inr x \<Rightarrow>
               if dtype c \<noteq> dtype x
                  \<and> \<not> (is_numeric_dtype (dtype c) \<and> is_numeric_dtype (dtype x))
               then
                 (case logger E (TypeChange col (dtype c) (dtype x)) of
                    Inl e \<Rightarrow> Inl e
                  | Inr u \<Rightarrow> check_dtypes E df_csv df_xlsx cols False)
               else check_dtypes E df_csv df_xlsx cols preserved))"

text \<open>\<^verbatim>\<open>df.iloc[i]\<close> is a Series of the row in the common dtype of the columns: int64
  next to float64 gives float64 (an int64 is converted as the platform rounds it,
  \<open>int_to_float\<close>), any other mixture gives object (the values keep their own
  types).\<close>

definition row_dtype :: "table \<Rightarrow> dtype" where
  "row_dtype df =
     (case map dtype (columns df) of
        [] \<Rightarrow> Object
      | d # ds \<Rightarrow>
          if list_all (\<lambda>d'. d' = d) ds then d
          else if list_all (\<lambda>d'. d' = Int64 \<or> d' = Float64) (d # ds) then Float64
          else Object)"

definition upcast :: "env \<Rightarrow> dtype \<Rightarrow> cell \<Rightarrow> cell" where
  "upcast E d c =
     (case c of
        IntV n \<Rightarrow> if d = Float64 then FloatV (Finite (int_to_float E n)) else c
      | _ \<Rightarrow> c)"

text \<open>\<^verbatim>\<open>df.iloc[i][col]\<close>: \<^verbatim>\<open>IndexError\<close> past the last row, then the lookup by
  label.\<close>

definition iloc :: "env \<Rightarrow> table \<Rightarrow> nat \<Rightarrow> string \<Rightarrow> exn + cell" where
  "iloc E df i col =
     (if nrows df \<le> i then Inl IndexError
      else (case getitem df col of
              Inl e \<Rightarrow> Inl e
            | Inr c \<Rightarrow>
                if i < length (cells c) then Inr (upcast E (row_dtype df) (cells c ! i))
                else Inl IndexError))"

definition isna :: "cell \<Rightarrow> bool" where
  "isna v = (v = NaN)"

text \<open>\<^verbatim>\<open>pd.api.types.is_numeric_dtype(type(v))\<close>: true of ints, floats (NaN is a float)
  and bools, false of \<^verbatim>\<open>str\<close>.\<close>

definition is_numeric_value :: "cell \<Rightarrow> bool" where
  "is_numeric_value v = (case v of StrV s \<Rightarrow> False | _ \<Rightarrow> True)"

definition to_float :: "env \<Rightarrow> cell \<Rightarrow> fnum option" where
  "to_float E v =
     (case v of
        NaN \<Rightarrow> None
      | IntV n \<Rightarrow> Some (Finite (int_to_float E n))
      | FloatV f \<Rightarrow> Some f
      | BoolV b \<Rightarrow> Some (Finite (if b then 1 else 0))
      | StrV s \<Rightarrow> None)"

text \<open>\<^verbatim>\<open>abs(a - b) > 1e-6\<close> on floats: between two finite values it is what float64
  arithmetic gives (\<open>float_diff_exceeds\<close>); a comparison with NaN is false, and so
  is one with \<^verbatim>\<open>inf - inf\<close>.\<close>

fun abs_diff_exceeds :: "env \<Rightarrow> fnum option \<Rightarrow> fnum option \<Rightarrow> bool" where
  "abs_diff_exceeds E (Some (Finite a)) (Some (Finite b)) = float_diff_exceeds E a b"
| "abs_diff_exceeds E None _ = False"
| "abs_diff_exceeds E _ None = False"
| "abs_diff_exceeds E (Some PosInf) (Some PosInf) = False"
| "abs_diff_exceeds E (Some NegInf) (Some NegInf) = False"
| "abs_diff_exceeds E (Some PosInf) (Some NegInf) = True"
| "abs_diff_exceeds E (Some NegInf) (Some PosInf) = True"
| "abs_diff_exceeds E (Some (Finite a)) (Some PosInf) = True"
| "abs_diff_exceeds E (Some (Finite a)) (Some NegInf) = True"
| "abs_diff_exceeds E (Some PosInf) (Some (Finite b)) = True"
| "abs_diff_exceeds E (Some NegInf) (Some (Finite b)) = True"

definition py_str :: "env \<Rightarrow> cell \<Rightarrow> string" where
  "py_str E v = (case v of StrV s \<Rightarrow> s | _ \<Rightarrow> scalar_str E v)"

definition cell_mismatch :: "env \<Rightarrow> cell \<Rightarrow> cell \<Rightarrow> bool" where
  "cell_mismatch E csv_val xlsx_val =
     (if isna csv_val \<and> isna xlsx_val then False
      else if is_numeric_value csv_val \<and> is_numeric_value xlsx_val
        then abs_diff_exceeds E (to_float E csv_val) (to_float E xlsx_val)
      else py_str E csv_val \<noteq> py_str E xlsx_val)"

text \<open>The two nested loops that compute \<^verbatim>\<open>sample_data_match\<close>; a mismatch is logged
  with the row, the label and the two values.\<close>

fun check_row :: "env \<Rightarrow> table \<Rightarrow> table \<Rightarrow> nat \<Rightarrow> string list \<Rightarrow> bool \<Rightarrow> exn + bool" where
  "check_row E df_csv df_xlsx i [] matching = Inr matching"
| "check_row E df_csv df_xlsx i (col # cols) matching =
     (case iloc E df_csv i col of
        Inl e \<Rightarrow> Inl e
      | Inr csv_val \<Rightarrow>
          (case iloc E df_xlsx i col of
             Inl e \<Rightarrow> Inl e
           | Inr xlsx_val \<Rightarrow>
               if cell_mismatch E csv_val xlsx_val then
                 (case logger E (DataMismatch i col csv_val xlsx_val) of
                    Inl e \<Rightarrow> Inl e
                  | Inr u \<Rightarrow> check_row E df_csv df_xlsx i cols False)
               else check_row E df_csv df_xlsx i cols matching))"

fun check_rows :: "env \<Rightarrow> table \<Rightarrow> table \<Rightarrow> nat list \<Rightarrow> bool \<Rightarrow> exn + bool" where
  "check_rows E df_csv df_xlsx [] matching = Inr matching"
| "check_rows E df_csv df_xlsx (i # rest) matching =
     (case check_row E df_csv df_xlsx i (labels df_csv) matching of
        Inl e \<Rightarrow> Inl e
      | Inr m \<Rightarrow> check_rows E df_csv df_xlsx rest m)"

definition check_sample :: "env \<Rightarrow> table \<Rightarrow> table \<Rightarrow> exn + bool" where
  "check_sample E df_csv df_xlsx =
     (if nrows df_csv > 0
      then check_rows E df_csv df_xlsx [0..<min 5 (nrows df_csv)] True
      else Inr True)"

text \<open>The checks of \<^verbatim>\<open>validate_conversion\<close> once both tables are in memory, up to the
  construction of the result.\<close>

definition compare_tables :: "env \<Rightarrow> table \<Rightarrow> table \<Rightarrow> exn + ValidationResult" where
  "compare_tables E df_csv df_xlsx =
     (case check_dtypes E df_csv df_xlsx (labels df_csv) True of
        Inl e \<Rightarrow> Inl e
      | Inr dt \<Rightarrow>
          (case check_sample E df_csv df_xlsx of
             Inl e \<Rightarrow> Inl e
           | Inr sd \<Rightarrow>
               Inr \<lparr>dimensions_match = (shape df_csv = shape df_xlsx),
                    columns_match = (labels df_csv = labels df_xlsx),
                    data_types_preserved = dt,
                    sample_data_match = sd\<rparr>))"

definition read_excel :: "env \<Rightarrow> filesystem \<Rightarrow> path \<Rightarrow> exn + table" where
  "read_excel E fs xlsx_path =
     (case fs xlsx_path of
        None \<Rightarrow> Inl FileNotFoundError
      | Some content \<Rightarrow> pd_read_excel E content)"

text \<open>The body of the \<^verbatim>\<open>try\<close> of \<^verbatim>\<open>validate_conversion\<close>.\<close>

definition validate_try :: "env \<Rightarrow> filesystem \<Rightarrow> path \<Rightarrow> path \<Rightarrow> exn + ValidationResult" where
  "validate_try E fs csv_path xlsx_path =
     (case read_csv_with_encoding E fs csv_path of
        Inl e \<Rightarrow> Inl e
      | Inr None \<Rightarrow> Inr all_false
      | Inr (Some df_csv) \<Rightarrow>
          (case read_excel E fs xlsx_path of
             Inl e \<Rightarrow> Inl e
           | Inr df_xlsx \<Rightarrow> compare_tables E df_csv df_xlsx))"

text \<open>The function with its \<^verbatim>\<open>except Exception as e\<close>: the handler logs
  \<^verbatim>\<open>f"Validation error: {e}"\<close> and then returns the all-false result. The log call is
  inside no \<^verbatim>\<open>try\<close>, so what it raises leaves the function.\<close>

definition validate_conversion ::
    "env \<Rightarrow> filesystem \<Rightarrow> path \<Rightarrow> path \<Rightarrow> exn + ValidationResult" where
  "validate_conversion E fs csv_path xlsx_path =
     (case validate_try E fs csv_path xlsx_path of
        Inl e \<Rightarrow>
          (case logger E (ValidationError e) of
             Inl e' \<Rightarrow> Inl e'
           | Inr u \<Rightarrow> Inr all_false)
      | Inr v \<Rightarrow> Inr v)"

section \<open>Conversion orchestrator\<close>

text \<open>\<^verbatim>\<open>Path.with_suffix\<close> raises \<^verbatim>\<open>ValueError\<close> on a path with an empty name.
  \<^verbatim>\<open>Path.unlink\<close> raises when the file is not there, and \<^verbatim>\<open>PermissionError\<close> when the
  operating system does not let this process remove it (\<open>may_unlink\<close>).\<close>

definition with_suffix :: "path \<Rightarrow> string \<Rightarrow> exn + path" where
  "with_suffix p s = (if stem p @ suffix p = [] then Inl ValueError else Inr (p\<lparr>suffix := s\<rparr>))"

definition unlink :: "env \<Rightarrow> filesystem \<Rightarrow> path \<Rightarrow> exn + filesystem" where
  "unlink E fs p =
     (case fs p of
        None \<Rightarrow> Inl FileNotFoundError
      | Some content \<Rightarrow> if may_unlink E p then Inr (fs(p := None)) else Inl PermissionError)"

definition empty :: "table \<Rightarrow> bool" where
  "empty df = (nrows df = 0 \<or> columns df = [])"

text \<open>The outer \<^verbatim>\<open>except Exception as e\<close> of \<^verbatim>\<open>process_csv_file\<close>: it logs
  \<^verbatim>\<open>f"Failed to process {file_path.name}. Error: {e}"\<close> and returns \<^verbatim>\<open>False\<close>; what the
  log call raises leaves the function.\<close>

definition handler :: "env \<Rightarrow> path \<Rightarrow> exn \<Rightarrow> exn + bool" where
  "handler E file_path e =
     (case logger E (FailedToProcess (stem file_path @ suffix file_path) e) of
        Inl e' \<Rightarrow> Inl e'
      | Inr u \<Rightarrow> Inr False)"

text \<open>\<^verbatim>\<open>process_csv_file\<close> returns its verdict or raises, and leaves a file system
  behind. Two exceptions have a text without data, so the handler's log call prints
  and the function returns \<^verbatim>\<open>False\<close>: the \<^verbatim>\<open>ValueError\<close> of \<^verbatim>\<open>with_suffix\<close> (a path
  with an empty name is \<^verbatim>\<open>.\<close> or a root, and the text holds nothing else) and the
  \<^verbatim>\<open>AttributeError\<close> of the normaliser (a fixed text).\<close>

definition process_csv_file ::
    "env \<Rightarrow> filesystem \<Rightarrow> path \<Rightarrow> (exn + bool) \<times> filesystem" where
  "process_csv_file E fs file_path =
     (case with_suffix file_path ''.xlsx'' of
        Inl e \<Rightarrow> (Inr False, fs)
      | Inr xlsx_path \<Rightarrow>
          (case read_csv_with_encoding E fs file_path of
             Inl e \<Rightarrow> (handler E file_path e, fs)
           | Inr None \<Rightarrow> (Inr False, fs)
           | Inr (Some df) \<Rightarrow>
               if empty df then (Inr False, fs)
               else
                 (case preserve_numeric_precision E df of
                    Inl e \<Rightarrow> (Inr False, fs)
                  | Inr df_processed \<Rightarrow>
                      (case to_excel E df_processed of
                         WriteFailed e None \<Rightarrow> (handler E file_path e, fs)
                       | WriteFailed e (Some partial) \<Rightarrow>
                           (handler E file_path e, fs(xlsx_path \<mapsto> partial))
                       | Written artifact \<Rightarrow>
                           (let fs' = fs(xlsx_path \<mapsto> artifact) in
                            case validate_conversion E fs' file_path xlsx_path of
                              Inl e \<Rightarrow> (handler E file_path e, fs')
                            | Inr validation \<Rightarrow>
                                if is_valid validation then
                                  (case unlink E fs' file_path of
                                     Inl e \<Rightarrow> (handler E file_path e, fs')
                                   | Inr fs'' \<Rightarrow> (Inr True, fs''))
                                else (Inr False, fs'))))))"

section \<open>The specification's de-duplication\<close>

text \<open>The specification's wording for the candidate list: duplicates removed, the
  first occurrence of each name kept in its place.\<close>

fun dedup_first_seen :: "string list \<Rightarrow> string list" where
  "dedup_first_seen [] = []"
| "dedup_first_seen (k # ks) = k # dedup_first_seen (filter (\<lambda>k'. k' \<noteq> k) ks)"

section \<open>Sample inputs\<close>

text \<open>Concrete files, tables and library behaviour on which the theorems below are
  instantiated. The bytes only tell the sample files apart; \<open>sample_read_csv\<close> and
  \<open>sample_env\<close> say what the libraries make of each of them.\<close>

definition csv_ok :: bytes where "csv_ok = [97, 10, 49, 10]"
definition csv_ragged :: bytes where "csv_ragged = [97, 10, 49, 44, 50, 10]"
definition csv_header_only :: bytes where "csv_header_only = [97, 10]"
definition csv_priced :: bytes where "csv_priced = [112, 10, 49, 46, 53, 10, 10]"
definition csv_tagged :: bytes where "csv_tagged = [91, 47, 120, 93, 10, 49, 10]"
definition xlsx_ok :: bytes where "xlsx_ok = [80, 75, 1]"
definition xlsx_renamed :: bytes where "xlsx_renamed = [80, 75, 2]"

definition one_row :: table where
  "one_row = \<lparr>nrows = 1, columns = [\<lparr>name = ''a'', dtype = Int64, cells = [IntV 1]\<rparr>]\<rparr>"

definition renamed :: table where
  "renamed = \<lparr>nrows = 1, columns = [\<lparr>name = ''b'', dtype = Int64, cells = [IntV 1]\<rparr>]\<rparr>"

definition no_rows :: table where
  "no_rows = \<lparr>nrows = 0, columns = [\<lparr>name = ''a'', dtype = Object, cells = []\<rparr>]\<rparr>"

definition priced :: table where
  "priced = \<lparr>nrows = 2,
              columns = [\<lparr>name = ''price'', dtype = Object, cells = [StrV ''1.5'', NaN]\<rparr>]\<rparr>"

definition tagged :: table where
  "tagged = \<lparr>nrows = 1, columns = [\<lparr>name = ''[/x]'', dtype = Int64, cells = [IntV 1]\<rparr>]\<rparr>"

text \<open>The sample markup parser: a text raises when a label or the text of an exception
  in it holds the start of a closing tag. The text of a \<^verbatim>\<open>MarkupError\<close> quotes the
  offending tag.\<close>

fun exn_closes_tag :: "exn \<Rightarrow> bool" where
  "exn_closes_tag (KeyError label) = contains ''[/'' label"
| "exn_closes_tag (LibraryError text) = contains ''[/'' text"
| "exn_closes_tag MarkupError = True"
| "exn_closes_tag _ = False"

fun sample_markup_error :: "message \<Rightarrow> bool" where
  "sample_markup_error (TypeChange label d d') = contains ''[/'' label"
| "sample_markup_error (DataMismatch i label v v') = contains ''[/'' label"
| "sample_markup_error (ValidationError e) = exn_closes_tag e"
| "sample_markup_error (FailedToProcess file_name e) = exn_closes_tag e"

definition sample_read_csv :: "bytes \<Rightarrow> string \<Rightarrow> strategy \<Rightarrow> read_outcome" where
  "sample_read_csv content enc s =
     (if content = csv_ok then Parsed one_row
      else if content = csv_header_only then Parsed no_rows
      else if content = csv_ragged then
        (if s = default_strategy then ParserError ''Error tokenizing data. C error: Expected 1 fields in line 2, saw 2''
         else if quoting s = QUOTE_ALL then Parsed one_row
         else OtherError)
      else if content = csv_priced then Parsed priced
      else if content = csv_tagged then Parsed tagged
      else OtherError)"

definition sample_env :: env where
  "sample_env =
     \<lparr>chardet_detect = (\<lambda>sample. if sample = [] then (None, 0) else (Some ''ascii'', 1)),
      pd_read_csv = sample_read_csv,
      pd_read_excel = (\<lambda>content. if content = xlsx_ok then Inr one_row
                                  else if content = xlsx_renamed then Inr renamed
                                  else Inl (LibraryError ''File is not a zip file'')),
      pd_to_numeric = (\<lambda>c. if c = StrV ''1.5'' then Some (Finite (3 / 2))
                            else if c = StrV ''2.25'' then Some (Finite (9 / 4))
                            else if c = StrV ''007'' then Some (Finite 7)
                            else None),
      to_numeric_series =
        (\<lambda>xs. (Float64, map (\<lambda>x. case x of None \<Rightarrow> NaN | Some f \<Rightarrow> FloatV f) xs)),
      int_cast_overflow = (\<lambda>q. - (2 ^ 63)),
      int_to_float = rat_of_int,
      float_diff_exceeds = (\<lambda>a b. \<bar>a - b\<bar> > 1 / 1000000),
      scalar_str = (\<lambda>v. if v = NaN then ''nan'' else ''1''),
      to_excel = (\<lambda>df. if df = one_row then Written xlsx_ok else Written xlsx_renamed),
      markup_error = sample_markup_error,
      may_unlink = (\<lambda>p. parent p \<noteq> ''Shared'')\<rparr>"

definition report_csv :: path where
  "report_csv = \<lparr>parent = ''Downloads'', stem = ''report'', suffix = ''.csv''\<rparr>"

definition report_xlsx :: path where
  "report_xlsx = \<lparr>parent = ''Downloads'', stem = ''report'', suffix = ''.xlsx''\<rparr>"



definition notes_txt :: path where
  "notes_txt = \<lparr>parent = ''Downloads'', stem = ''notes'', suffix = ''.txt''\<rparr>"

definition fractions :: table where
  "fractions = \<lparr>nrows = 2,
                 columns = [\<lparr>name = ''x'', dtype = Object,
                             cells = [StrV ''1.5'', StrV ''2.25'']\<rparr>]\<rparr>"

section \<open>Properties of the reader\<close>

lemma fromkeys_dedup:
  "distinct seen \<Longrightarrow>
   fromkeys seen ks = seen @ dedup_first_seen (filter (\<lambda>k. k \<notin> set seen) ks)"
proof (induction ks arbitrary: seen)
  case Nil show ?case by simp
next
  case (Cons k ks)
  show ?case
  proof (cases "k \<in> set seen")
    case True
    then show ?thesis using Cons by simp
  next
    case False
    have d: "distinct (seen @ [k])" using Cons.prems False by simp
    have f: "filter (\<lambda>k'. k' \<notin> set (seen @ [k])) ks
             = filter (\<lambda>k'. k' \<noteq> k) (filter (\<lambda>k'. k' \<notin> set seen) ks)"
      by (induction ks) auto
    have "fromkeys (seen @ [k]) ks
            = seen @ k # dedup_first_seen
                (filter (\<lambda>k'. k' \<noteq> k) (filter (\<lambda>k'. k' \<notin> set seen) ks))"
      using Cons.IH[OF d] by (simp only: f append_assoc append_Cons append_Nil)
    with False show ?thesis by (simp del: filter_filter)
  qed
qed

lemma fromkeys_distinct: "distinct seen \<Longrightarrow> distinct (fromkeys seen ks)"
  by (induction ks arbitrary: seen) auto

lemma try_encodings_find:
  "try_encodings E content encs =
     (case find (\<lambda>enc. try_encoding E content enc \<noteq> None) encs of
        None \<Rightarrow> None
      | Some enc \<Rightarrow> try_encoding E content enc)"
  by (induction encs) (auto split: option.splits)

text \<open>
  Claim C6. The detector's answer is used as follows: a detected encoding with a
  confidence strictly above 0.7 is returned; with no encoding, or a confidence of 0.7 or
  less, the result is \<^verbatim>\<open>utf-8\<close>. The decision is total and its result is never empty.
  chardet names an encoding by a non-empty string; Python's truth test would send an
  empty name to the default as well. \<^verbatim>\<open>detect_file_encoding\<close> applies the decision to
  the detector's answer on the first 100000 bytes of the file.
\<close>
theorem detect_file_encoding_policy:
  "(detected \<noteq> [] \<and> confidence > 7 / 10 \<longrightarrow>
      choose_encoding (Some detected, confidence) = detected)
   \<and> (confidence \<le> 7 / 10 \<longrightarrow> choose_encoding (Some detected, confidence) = ''utf-8'')
   \<and> choose_encoding (None, confidence) = ''utf-8''
   \<and> choose_encoding guess \<noteq> []
   \<and> (fs file_path = Some content \<longrightarrow>
        detect_file_encoding E fs file_path
          = Inr (choose_encoding (chardet_detect E (take 100000 content))))"
  by (auto simp: choose_encoding_def detect_file_encoding_def split: option.splits)

theorem detect_file_encoding_policy_witness:
  "choose_encoding (Some ''ascii'', 1) = ''ascii''
   \<and> choose_encoding (Some ''ascii'', 7 / 10) = ''utf-8''
   \<and> detect_file_encoding sample_env [report_csv \<mapsto> csv_ok] report_csv = Inr ''ascii''"
  using detect_file_encoding_policy [of "''ascii''" 1 "(None, 0)" "[report_csv \<mapsto> csv_ok]" report_csv csv_ok sample_env]
    detect_file_encoding_policy [of "''ascii''" "7 / 10" "(None, 0)" "[report_csv \<mapsto> csv_ok]" report_csv csv_ok sample_env]
  by (simp add: sample_env_def csv_ok_def)

text \<open>
  Claim C7. The candidate list is \<^verbatim>\<open>[guess, utf-8, latin-1, cp1252, iso-8859-1]\<close> with
  duplicates removed and the first-seen order kept: the guess, then those of the four
  fixed names that differ from it. The reader returns the result of the first encoding
  of that list, in list order, whose attempt yields a table.
\<close>
theorem encodings_to_try_order:
  "encodings_to_try guess
     = dedup_first_seen [guess, ''utf-8'', ''latin-1'', ''cp1252'', ''iso-8859-1'']
   \<and> encodings_to_try guess
     = guess # filter (\<lambda>enc. enc \<noteq> guess) [''utf-8'', ''latin-1'', ''cp1252'', ''iso-8859-1'']
   \<and> distinct (encodings_to_try guess)
   \<and> (fs file_path = Some content \<longrightarrow>
        read_csv_with_encoding E fs file_path
          = Inr (case find (\<lambda>enc. try_encoding E content enc \<noteq> None)
                        (encodings_to_try
                           (choose_encoding (chardet_detect E (take 100000 content)))) of
                   None \<Rightarrow> None
                 | Some enc \<Rightarrow> try_encoding E content enc))"
proof -
  have a: "encodings_to_try guess
             = dedup_first_seen [guess, ''utf-8'', ''latin-1'', ''cp1252'', ''iso-8859-1'']"
    unfolding encodings_to_try_def using fromkeys_dedup [of "[]"] by simp
  have b: "dedup_first_seen [guess, ''utf-8'', ''latin-1'', ''cp1252'', ''iso-8859-1'']
             = guess # filter (\<lambda>enc. enc \<noteq> guess) [''utf-8'', ''latin-1'', ''cp1252'', ''iso-8859-1'']"
    by simp
  have c: "distinct (encodings_to_try guess)"
    unfolding encodings_to_try_def by (rule fromkeys_distinct) simp
  have d: "fs file_path = Some content \<longrightarrow>
        read_csv_with_encoding E fs file_path
          = Inr (case find (\<lambda>enc. try_encoding E content enc \<noteq> None)
                        (encodings_to_try
                           (choose_encoding (chardet_detect E (take 100000 content)))) of
                   None \<Rightarrow> None
                 | Some enc \<Rightarrow> try_encoding E content enc)"
    by (simp add: read_csv_with_encoding_def detect_file_encoding_def try_encodings_find)
  from a b c d show ?thesis by (simp only: simp_thms)
qed

theorem encodings_to_try_order_witness:
  "encodings_to_try ''utf-8'' = [''utf-8'', ''latin-1'', ''cp1252'', ''iso-8859-1'']
   \<and> read_csv_with_encoding sample_env [report_csv \<mapsto> csv_ok] report_csv = Inr (Some one_row)"
proof -
  note t = encodings_to_try_order [where guess = "''utf-8''" and fs = "[report_csv \<mapsto> csv_ok]"
      and file_path = report_csv and content = csv_ok and E = sample_env]
  have "encodings_to_try ''utf-8''
          = ''utf-8'' # filter (\<lambda>enc. enc \<noteq> ''utf-8'') [''utf-8'', ''latin-1'', ''cp1252'', ''iso-8859-1'']"
    by (rule conjunct1 [OF conjunct2 [OF t]])
  then have a: "encodings_to_try ''utf-8'' = [''utf-8'', ''latin-1'', ''cp1252'', ''iso-8859-1'']"
    by simp
  have p: "try_encoding sample_env csv_ok enc = Some one_row" for enc
    by (simp add: try_encoding_def sample_env_def sample_read_csv_def)
  have g: "choose_encoding (chardet_detect sample_env (take 100000 csv_ok)) = ''ascii''"
    by (simp add: sample_env_def choose_encoding_def csv_ok_def)
  have l: "encodings_to_try ''ascii'' = fromkeys [] [''ascii'', ''utf-8'', ''latin-1'', ''cp1252'', ''iso-8859-1'']"
    by (simp only: encodings_to_try_def)
  have "[report_csv \<mapsto> csv_ok] report_csv = Some csv_ok" by simp
  then have "read_csv_with_encoding sample_env [report_csv \<mapsto> csv_ok] report_csv
          = Inr (case find (\<lambda>enc. try_encoding sample_env csv_ok enc \<noteq> None)
                        (encodings_to_try
                           (choose_encoding (chardet_detect sample_env (take 100000 csv_ok)))) of
                   None \<Rightarrow> None
                 | Some enc \<Rightarrow> try_encoding sample_env csv_ok enc)"
    using conjunct2 [OF conjunct2 [OF conjunct2 [OF t]]] by blast
  then have "read_csv_with_encoding sample_env [report_csv \<mapsto> csv_ok] report_csv = Inr (Some one_row)"
    by (simp add: p g l)
  with a show ?thesis by simp
qed

lemma try_strategies_step:
  "(case try_strategies E content enc (s # ss) of Some df \<Rightarrow> Some df | None \<Rightarrow> k)
     = (case pd_read_csv E content enc s of
          Parsed df \<Rightarrow> Some df
        | _ \<Rightarrow> (case try_strategies E content enc ss of Some df \<Rightarrow> Some df | None \<Rightarrow> k))"
  by (simp add: try_parse_csv_with_strategy_def split: read_outcome.splits)

lemma try_strategies_done:
  "(case try_strategies E content enc [] of Some df \<Rightarrow> Some df | None \<Rightarrow> k) = k"
  by simp

text \<open>
  Claim C3. When the default parse under an encoding fails with a \<^verbatim>\<open>ParserError\<close>
  whose message mentions \<^verbatim>\<open>expected\<close> and \<^verbatim>\<open>fields\<close>, the reader stays with that encoding
  and tries, in this order, the Python engine skipping bad lines, the Python engine
  warning on bad lines, the C engine with \<^verbatim>\<open>QUOTE_ALL\<close>, the C engine with \<^verbatim>\<open>QUOTE_NONE\<close>
  and the Python engine with \<^verbatim>\<open>QUOTE_ALL\<close>. The first one that parses is returned; any
  other outcome of a relaxation counts as a failure; only after all five have failed
  does the reader go on to the remaining encodings.
\<close>
theorem relaxations_in_fixed_order:
  assumes "pd_read_csv E content enc default_strategy = ParserError error_msg"
    and "field_count_message error_msg"
  shows "try_encodings E content (enc # encs) =
    (case pd_read_csv E content enc
            \<lparr>engine = Python, on_bad_lines = Skip, quoting = QUOTE_MINIMAL, delimiter = CHR '',''\<rparr> of
       Parsed df \<Rightarrow> Some df
     | _ \<Rightarrow>
    (case pd_read_csv E content enc
            \<lparr>engine = Python, on_bad_lines = Warn, quoting = QUOTE_MINIMAL, delimiter = CHR '',''\<rparr> of
       Parsed df \<Rightarrow> Some df
     | _ \<Rightarrow>
    (case pd_read_csv E content enc
            \<lparr>engine = C, on_bad_lines = Error, quoting = QUOTE_ALL, delimiter = CHR '',''\<rparr> of
       Parsed df \<Rightarrow> Some df
     | _ \<Rightarrow>
    (case pd_read_csv E content enc
            \<lparr>engine = C, on_bad_lines = Error, quoting = QUOTE_NONE, delimiter = CHR '',''\<rparr> of
       Parsed df \<Rightarrow> Some df
     | _ \<Rightarrow>
    (case pd_read_csv E content enc
            \<lparr>engine = Python, on_bad_lines = Warn, quoting = QUOTE_ALL, delimiter = CHR '',''\<rparr> of
       Parsed df \<Rightarrow> Some df
     | _ \<Rightarrow> try_encodings E content encs)))))"
proof -
  have "try_encoding E content enc = try_strategies E content enc strategies"
    using assms by (simp add: try_encoding_def)
  then have "try_encodings E content (enc # encs)
      = (case try_strategies E content enc strategies of
           Some df \<Rightarrow> Some df
         | None \<Rightarrow> try_encodings E content encs)"
    by simp
  then show ?thesis
    unfolding strategies_def by (simp only: try_strategies_step try_strategies_done)
qed

lemma sample_message:
  "field_count_message ''Error tokenizing data. C error: Expected 1 fields in line 2, saw 2''"
  by code_simp

theorem relaxations_in_fixed_order_witness:
  "pd_read_csv sample_env csv_ragged ''ascii'' default_strategy
     = ParserError ''Error tokenizing data. C error: Expected 1 fields in line 2, saw 2''
   \<and> field_count_message ''Error tokenizing data. C error: Expected 1 fields in line 2, saw 2''
   \<and> try_encodings sample_env csv_ragged [''ascii'', ''utf-8''] = Some one_row"
proof -
  have r: "pd_read_csv sample_env csv_ragged ''ascii'' default_strategy
     = ParserError ''Error tokenizing data. C error: Expected 1 fields in line 2, saw 2''"
    by (simp add: sample_env_def sample_read_csv_def csv_ragged_def csv_ok_def
          csv_header_only_def)
  have s: "pd_read_csv sample_env csv_ragged ''ascii'' s
             = (if s = default_strategy then ParserError ''Error tokenizing data. C error: Expected 1 fields in line 2, saw 2''
                else if quoting s = QUOTE_ALL then Parsed one_row else OtherError)" for s
    by (simp add: sample_env_def sample_read_csv_def csv_ragged_def csv_ok_def
          csv_header_only_def)
  have "try_encodings sample_env csv_ragged [''ascii'', ''utf-8''] = Some one_row"
    using relaxations_in_fixed_order [OF r sample_message, of "[''utf-8'']"]
    by (simp add: s default_strategy_def)
  with r sample_message show ?thesis by simp
qed

section \<open>Properties of the validator\<close>

lemma sample_read_ok:
  "fs p = Some csv_ok \<Longrightarrow> read_csv_with_encoding sample_env fs p = Inr (Some one_row)"
  by (simp add: read_csv_with_encoding_def detect_file_encoding_def encodings_to_try_def
        try_encoding_def sample_env_def sample_read_csv_def)

lemma sample_read_empty:
  "fs p = Some [] \<Longrightarrow> read_csv_with_encoding sample_env fs p = Inr None"
  by (simp add: read_csv_with_encoding_def detect_file_encoding_def encodings_to_try_def
        try_encoding_def sample_env_def sample_read_csv_def choose_encoding_def
        csv_ok_def csv_header_only_def csv_ragged_def csv_priced_def csv_tagged_def)

lemma sample_read_tagged:
  "fs p = Some csv_tagged \<Longrightarrow> read_csv_with_encoding sample_env fs p = Inr (Some tagged)"
  by (simp add: read_csv_with_encoding_def detect_file_encoding_def encodings_to_try_def
        try_encoding_def sample_env_def sample_read_csv_def csv_ok_def csv_header_only_def
        csv_ragged_def csv_priced_def csv_tagged_def)

lemma sample_excel_ok:
  "fs p = Some xlsx_ok \<Longrightarrow> read_excel sample_env fs p = Inr one_row"
  by (simp add: read_excel_def sample_env_def)

lemma sample_excel_renamed:
  "fs p = Some xlsx_renamed \<Longrightarrow> read_excel sample_env fs p = Inr renamed"
  by (simp add: read_excel_def sample_env_def xlsx_ok_def xlsx_renamed_def)

lemma sample_dtypes_ok: "check_dtypes E one_row one_row (labels one_row) True = Inr True"
  by (simp add: one_row_def labels_def getitem_def)

lemma sample_rows_ok: "check_sample sample_env one_row one_row = Inr True"
  by (simp add: check_sample_def one_row_def labels_def iloc_def getitem_def row_dtype_def
        upcast_def cell_mismatch_def isna_def is_numeric_value_def to_float_def sample_env_def)

lemma sample_dtypes_renamed:
  "check_dtypes E one_row renamed (labels one_row) True = Inl (KeyError ''a'')"
  by (simp add: one_row_def renamed_def labels_def getitem_def)

lemma sample_dtypes_tagged:
  "check_dtypes E tagged renamed (labels tagged) True = Inl (KeyError ''[/x]'')"
  by (simp add: tagged_def renamed_def labels_def getitem_def)

lemma sample_label_prints: "\<not> markup_error sample_env (ValidationError (KeyError ''a''))"
  by (simp add: sample_env_def)

lemma sample_label_raises: "markup_error sample_env (ValidationError (KeyError ''[/x]''))"
  by (simp add: sample_env_def)

text \<open>The handler of \<^verbatim>\<open>validate_conversion\<close>: when the body raises, the result is
  all-false if the log call prints; the only exception that leaves the function is
  the log call's own.\<close>

lemma validate_conversion_handler:
  "validate_try E fs csv_path xlsx_path = Inl e \<Longrightarrow>
   validate_conversion E fs csv_path xlsx_path
     = (if markup_error E (ValidationError e) then Inl MarkupError else Inr all_false)"
  by (simp add: validate_conversion_def logger_def)

lemma validate_conversion_raises_markup_error_only:
  "validate_conversion E fs csv_path xlsx_path = Inl e \<Longrightarrow> e = MarkupError"
  by (auto simp: validate_conversion_def logger_def split: sum.splits if_splits)

lemma validate_conversion_unreadable_source:
  "read_csv_with_encoding E fs csv_path = Inr None \<Longrightarrow>
   validate_conversion E fs csv_path xlsx_path = Inr all_false"
  by (simp add: validate_conversion_def validate_try_def)

text \<open>
  Claim C4. The code breaks the claim on this input: the source table has the single
  column label \<^verbatim>\<open>[/x]\<close> and the produced table has no such column. The dtype loop raises
  \<^verbatim>\<open>KeyError\<close>, the handler logs the text of the exception, the log handler's markup
  parser raises on the closing tag, and \<^verbatim>\<open>MarkupError\<close> leaves \<^verbatim>\<open>validate_conversion\<close>,
  where the claim has it return the all-false result.
\<close>
theorem validate_conversion_raises_on_closing_tag:
  "read_csv_with_encoding sample_env [report_csv \<mapsto> csv_tagged, report_xlsx \<mapsto> xlsx_renamed]
     report_csv = Inr (Some tagged)
   \<and> read_excel sample_env [report_csv \<mapsto> csv_tagged, report_xlsx \<mapsto> xlsx_renamed]
     report_xlsx = Inr renamed
   \<and> validate_try sample_env [report_csv \<mapsto> csv_tagged, report_xlsx \<mapsto> xlsx_renamed]
     report_csv report_xlsx = Inl (KeyError ''[/x]'')
   \<and> validate_conversion sample_env [report_csv \<mapsto> csv_tagged, report_xlsx \<mapsto> xlsx_renamed]
     report_csv report_xlsx = Inl MarkupError"
proof -
  have r: "read_csv_with_encoding sample_env [report_csv \<mapsto> csv_tagged, report_xlsx \<mapsto> xlsx_renamed]
     report_csv = Inr (Some tagged)"
    by (rule sample_read_tagged) (simp add: report_csv_def report_xlsx_def)
  have x: "read_excel sample_env [report_csv \<mapsto> csv_tagged, report_xlsx \<mapsto> xlsx_renamed]
     report_xlsx = Inr renamed"
    by (rule sample_excel_renamed) simp
  have t: "validate_try sample_env [report_csv \<mapsto> csv_tagged, report_xlsx \<mapsto> xlsx_renamed]
     report_csv report_xlsx = Inl (KeyError ''[/x]'')"
    by (simp add: validate_try_def r x compare_tables_def sample_dtypes_tagged)
  have "validate_conversion sample_env [report_csv \<mapsto> csv_tagged, report_xlsx \<mapsto> xlsx_renamed]
     report_csv report_xlsx = Inl MarkupError"
    by (simp add: validate_conversion_handler [OF t] sample_label_raises)
  with r x t show ?thesis by (simp only: simp_thms)
qed

lemma check_dtypes_missing_label:
  "col \<in> set cols \<Longrightarrow> isl (getitem df_csv col) \<or> isl (getitem df_xlsx col) \<Longrightarrow>
   isl (check_dtypes E df_csv df_xlsx cols preserved)"
  by (induction cols arbitrary: preserved) (auto split: sum.splits)

text \<open>
  Claim C5, as stated, fails: both tables are read and have the same shape, but the
  source's column \<^verbatim>\<open>a\<close> is called \<^verbatim>\<open>b\<close> in the produced table. The dtype loop raises
  \<^verbatim>\<open>KeyError\<close> on \<^verbatim>\<open>df_xlsx[col]\<close>, the handler returns all flags false, and
  \<^verbatim>\<open>dimensions_match\<close> is false although the dimensions are identical.
\<close>
theorem dimensions_match_counterexample:
  "read_csv_with_encoding sample_env [report_csv \<mapsto> csv_ok, report_xlsx \<mapsto> xlsx_renamed] report_csv
     = Inr (Some one_row)
   \<and> read_excel sample_env [report_csv \<mapsto> csv_ok, report_xlsx \<mapsto> xlsx_renamed] report_xlsx
     = Inr renamed
   \<and> shape one_row = shape renamed
   \<and> validate_conversion sample_env [report_csv \<mapsto> csv_ok, report_xlsx \<mapsto> xlsx_renamed]
        report_csv report_xlsx
     = Inr \<lparr>dimensions_match = False, columns_match = False,
            data_types_preserved = False, sample_data_match = False\<rparr>"
proof -
  have r: "read_csv_with_encoding sample_env [report_csv \<mapsto> csv_ok, report_xlsx \<mapsto> xlsx_renamed] report_csv
     = Inr (Some one_row)"
    by (rule sample_read_ok) (simp add: report_csv_def report_xlsx_def)
  have x: "read_excel sample_env [report_csv \<mapsto> csv_ok, report_xlsx \<mapsto> xlsx_renamed] report_xlsx
     = Inr renamed"
    by (rule sample_excel_renamed) simp
  have s: "shape one_row = shape renamed"
    by (simp add: shape_def one_row_def renamed_def)
  have t: "validate_try sample_env [report_csv \<mapsto> csv_ok, report_xlsx \<mapsto> xlsx_renamed]
     report_csv report_xlsx = Inl (KeyError ''a'')"
    by (simp add: validate_try_def r x compare_tables_def sample_dtypes_renamed)
  have "validate_conversion sample_env [report_csv \<mapsto> csv_ok, report_xlsx \<mapsto> xlsx_renamed]
            report_csv report_xlsx = Inr all_false"
    by (simp add: validate_conversion_handler [OF t] sample_label_prints)
  then show ?thesis using r x s by (simp add: all_false_def)
qed

text \<open>
  Claim C5, amended. When both tables are read and \<^verbatim>\<open>validate_conversion\<close> returns a
  result, \<^verbatim>\<open>dimensions_match\<close> is true exactly when the two tables have the same row
  count and column count and neither the dtype loop nor the sample loop raises; when
  one of them raises, the returned result has all four flags false. What the loops
  compute (the values of \<^verbatim>\<open>data_types_preserved\<close> and \<^verbatim>\<open>sample_data_match\<close>) and whether the
  labels agree has no influence on the flag.
\<close>
theorem dimensions_match_unless_raised:
  assumes "read_csv_with_encoding E fs csv_path = Inr (Some df_csv)"
    and "read_excel E fs xlsx_path = Inr df_xlsx"
    and "validate_conversion E fs csv_path xlsx_path = Inr v"
  shows "dimensions_match v
           = (shape df_csv = shape df_xlsx
              \<and> \<not> isl (check_dtypes E df_csv df_xlsx (labels df_csv) True)
              \<and> \<not> isl (check_sample E df_csv df_xlsx))
    \<and> (isl (check_dtypes E df_csv df_xlsx (labels df_csv) True)
          \<or> isl (check_sample E df_csv df_xlsx) \<longrightarrow>
        v = \<lparr>dimensions_match = False, columns_match = False,
             data_types_preserved = False, sample_data_match = False\<rparr>)"
  using assms
  by (auto simp: validate_conversion_def validate_try_def compare_tables_def all_false_def
        logger_def split: sum.splits if_splits)

theorem dimensions_match_unless_raised_witness:
  "read_csv_with_encoding sample_env [report_csv \<mapsto> csv_ok, report_xlsx \<mapsto> xlsx_ok] report_csv
     = Inr (Some one_row)
   \<and> read_excel sample_env [report_csv \<mapsto> csv_ok, report_xlsx \<mapsto> xlsx_ok] report_xlsx
     = Inr one_row
   \<and> validate_conversion sample_env [report_csv \<mapsto> csv_ok, report_xlsx \<mapsto> xlsx_ok]
        report_csv report_xlsx
     = Inr \<lparr>dimensions_match = True, columns_match = True,
            data_types_preserved = True, sample_data_match = True\<rparr>
   \<and> shape one_row = shape one_row
   \<and> \<not> isl (check_dtypes sample_env one_row one_row (labels one_row) True)
   \<and> \<not> isl (check_sample sample_env one_row one_row)"
proof -
  have r: "read_csv_with_encoding sample_env [report_csv \<mapsto> csv_ok, report_xlsx \<mapsto> xlsx_ok] report_csv
     = Inr (Some one_row)"
    by (rule sample_read_ok) (simp add: report_csv_def report_xlsx_def)
  have x: "read_excel sample_env [report_csv \<mapsto> csv_ok, report_xlsx \<mapsto> xlsx_ok] report_xlsx
     = Inr one_row"
    by (rule sample_excel_ok) simp
  have v: "validate_conversion sample_env [report_csv \<mapsto> csv_ok, report_xlsx \<mapsto> xlsx_ok]
        report_csv report_xlsx
     = Inr \<lparr>dimensions_match = True, columns_match = True,
            data_types_preserved = True, sample_data_match = True\<rparr>"
    by (simp add: validate_conversion_def validate_try_def r x compare_tables_def
          sample_dtypes_ok sample_rows_ok)
  from dimensions_match_unless_raised [OF r x v]
  have "\<not> isl (check_dtypes sample_env one_row one_row (labels one_row) True)
        \<and> \<not> isl (check_sample sample_env one_row one_row)"
    by simp
  with r x v show ?thesis by (simp only: simp_thms)
qed

text \<open>
  Claim C9. \<^verbatim>\<open>validate_conversion\<close> only reads: it leaves the files alone. What it
  does, the result it returns or the exception of its log call, is determined by the
  contents of the source and of the produced file, so two calls on file systems that
  agree on these two paths do the same, whatever else differs.
\<close>
theorem validate_conversion_deterministic:
  assumes "fs1 csv_path = fs2 csv_path" and "fs1 xlsx_path = fs2 xlsx_path"
  shows "validate_conversion E fs1 csv_path xlsx_path = validate_conversion E fs2 csv_path xlsx_path"
  unfolding validate_conversion_def validate_try_def read_csv_with_encoding_def
    detect_file_encoding_def read_excel_def assms
  by (rule refl)

theorem validate_conversion_deterministic_witness:
  "[report_csv \<mapsto> csv_ok, report_xlsx \<mapsto> xlsx_ok] report_csv
     = [report_csv \<mapsto> csv_ok, report_xlsx \<mapsto> xlsx_ok, notes_txt \<mapsto> csv_ragged] report_csv
   \<and> [report_csv \<mapsto> csv_ok, report_xlsx \<mapsto> xlsx_ok] report_xlsx
     = [report_csv \<mapsto> csv_ok, report_xlsx \<mapsto> xlsx_ok, notes_txt \<mapsto> csv_ragged] report_xlsx
   \<and> validate_conversion sample_env [report_csv \<mapsto> csv_ok, report_xlsx \<mapsto> xlsx_ok]
         report_csv report_xlsx
     = validate_conversion sample_env
         [report_csv \<mapsto> csv_ok, report_xlsx \<mapsto> xlsx_ok, notes_txt \<mapsto> csv_ragged]
         report_csv report_xlsx"
proof -
  have a: "[report_csv \<mapsto> csv_ok, report_xlsx \<mapsto> xlsx_ok] report_csv
     = [report_csv \<mapsto> csv_ok, report_xlsx \<mapsto> xlsx_ok, notes_txt \<mapsto> csv_ragged] report_csv"
    by (simp add: report_csv_def report_xlsx_def notes_txt_def)
  have b: "[report_csv \<mapsto> csv_ok, report_xlsx \<mapsto> xlsx_ok] report_xlsx
     = [report_csv \<mapsto> csv_ok, report_xlsx \<mapsto> xlsx_ok, notes_txt \<mapsto> csv_ragged] report_xlsx"
    by (simp add: report_csv_def report_xlsx_def notes_txt_def)
  from a b validate_conversion_deterministic [OF a b, of sample_env] show ?thesis
    by (simp only: simp_thms)
qed

section \<open>Properties of the normaliser\<close>

lemma cast_int_error: "cast_int E x = Inl e \<Longrightarrow> e = ValueError"
  by (cases "(E, x)" rule: cast_int.cases) auto

lemma astype_int_missing: "None \<in> set xs \<Longrightarrow> astype_int E xs = Inl ValueError"
proof (induction xs)
  case Nil
  then show ?case by simp
next
  case (Cons x xs)
  show ?case
  proof (cases "cast_int E x")
    case (Inl e)
    then show ?thesis using cast_int_error [OF Inl] by simp
  next
    case (Inr n)
    then have "x \<noteq> None" by (cases x) auto
    with Cons.prems have "None \<in> set xs" by simp
    then have "astype_int E xs = Inl ValueError" by (rule Cons.IH)
    with Inr show ?thesis by simp
  qed
qed

lemma to_numeric_missing: "to_numeric E NaN = None"
  by (simp add: to_numeric_def)

lemma all_integers_missing:
  assumes "NaN \<in> set cs"
  shows "all_integers E (map (to_numeric E) cs) = Inl ValueError"
proof -
  have "to_numeric E NaN \<in> set (map (to_numeric E) cs)"
    using assms by (simp only: set_map image_eqI)
  then have "None \<in> set (map (to_numeric E) cs)"
    by (simp only: to_numeric_missing)
  then show ?thesis
    by (simp add: all_integers_def astype_int_missing)
qed

lemma preserve_column_missing:
  "NaN \<in> set (cells col) \<Longrightarrow> preserve_column E col = col"
  by (simp add: preserve_column_def Let_def all_integers_missing)

lemma coerced_count:
  "\<forall>c\<in>set cs. c \<noteq> NaN \<longrightarrow> to_numeric E c \<noteq> None \<Longrightarrow>
   length (filter (\<lambda>x. x \<noteq> None) (map (to_numeric E) cs)) = length (filter (\<lambda>c. c \<noteq> NaN) cs)"
  by (induction cs) (auto simp: to_numeric_missing)

lemma preserve_numeric_precision_columns:
  "preserve_numeric_precision E df = Inr df' \<Longrightarrow>
   columns df' = map (preserve_column E) (columns df) \<and> nrows df' = nrows df"
  by (auto simp: preserve_numeric_precision_def split: if_splits)

text \<open>
  Claim C10. A text column with at least one missing value whose other values all
  coerce to numbers is left as it is, fractional values or not: the two counts agree,
  so the all-integers check is evaluated, \<^verbatim>\<open>numeric_col.astype(int)\<close> raises on the NaN,
  and the handler of the loop body skips the column.
\<close>
theorem missing_value_keeps_column_text:
  assumes "preserve_numeric_precision E df = Inr df'"
    and "i < length (columns df)"
    and "dtype (columns df ! i) = Object"
    and "NaN \<in> set (cells (columns df ! i))"
    and "\<forall>c\<in>set (cells (columns df ! i)). c \<noteq> NaN \<longrightarrow> to_numeric E c \<noteq> None"
  shows "columns df' ! i = columns df ! i
    \<and> length (filter (\<lambda>x. x \<noteq> None) (map (to_numeric E) (cells (columns df ! i))))
        = length (filter (\<lambda>c. c \<noteq> NaN) (cells (columns df ! i)))
    \<and> all_integers E (map (to_numeric E) (cells (columns df ! i))) = Inl ValueError"
proof -
  have "columns df' ! i = preserve_column E (columns df ! i)"
    using preserve_numeric_precision_columns [OF assms(1)] assms(2) by simp
  then have "columns df' ! i = columns df ! i"
    using assms(4) by (simp add: preserve_column_missing)
  then show ?thesis
    using coerced_count [OF assms(5)] all_integers_missing [OF assms(4)] by simp
qed

lemma sample_priced_unchanged: "preserve_numeric_precision sample_env priced = Inr priced"
  by (simp add: preserve_numeric_precision_def priced_def preserve_column_missing)

lemma sample_one_and_a_half: "to_numeric sample_env (StrV ''1.5'') = Some (Finite (3 / 2))"
  by (simp add: to_numeric_def sample_env_def)

theorem missing_value_keeps_column_text_witness:
  "preserve_numeric_precision sample_env priced = Inr priced
   \<and> (0::nat) < length (columns priced)
   \<and> dtype (columns priced ! 0) = Object
   \<and> cells (columns priced ! 0) = [StrV ''1.5'', NaN]
   \<and> to_numeric sample_env (StrV ''1.5'') = Some (Finite (3 / 2))
   \<and> all_integers sample_env (map (to_numeric sample_env) [StrV ''1.5'', NaN]) = Inl ValueError"
proof -
  have a: "(0::nat) < length (columns priced)" by (simp add: priced_def)
  have b: "dtype (columns priced ! 0) = Object" by (simp add: priced_def)
  have c: "NaN \<in> set (cells (columns priced ! 0))" by (simp add: priced_def)
  have d: "\<forall>c\<in>set (cells (columns priced ! 0)). c \<noteq> NaN \<longrightarrow> to_numeric sample_env c \<noteq> None"
    by (simp add: priced_def sample_one_and_a_half)
  have e: "cells (columns priced ! 0) = [StrV ''1.5'', NaN]" by (simp add: priced_def)
  from missing_value_keeps_column_text [OF sample_priced_unchanged a b c d]
  have "all_integers sample_env (map (to_numeric sample_env) [StrV ''1.5'', NaN]) = Inl ValueError"
    by (simp only: e)
  with sample_priced_unchanged a b e sample_one_and_a_half show ?thesis by (simp only: simp_thms)
qed

lemma truncate_integer: "(of_int (truncate q) = q) = (q \<in> \<int>)"
proof
  assume a: "of_int (truncate q) = q"
  have "of_int (truncate q) \<in> (\<int> :: rat set)" by (rule Ints_of_int)
  then show "q \<in> \<int>" by (simp only: a)
next
  assume "q \<in> \<int>"
  then obtain z where "q = of_int z" by (auto elim: Ints_cases)
  then show "of_int (truncate q) = q" by (simp add: truncate_def)
qed

lemma all_integers_step:
  "all_integers E (x # xs) =
     (case cast_int E x of
        Inl e \<Rightarrow> Inl e
      | Inr n \<Rightarrow>
          (case all_integers E xs of
             Inl e \<Rightarrow> Inl e
           | Inr rest \<Rightarrow> Inr (x = Some (Finite (of_int n)) \<and> rest)))"
  by (auto simp: all_integers_def split: sum.splits)

lemma astype_int_not_finite:
  "\<exists>x\<in>set xs. \<forall>q. x \<noteq> Some (Finite q) \<Longrightarrow> astype_int E xs = Inl ValueError"
proof (induction xs)
  case Nil
  then show ?case by simp
next
  case (Cons x xs)
  show ?case
  proof (cases "cast_int E x")
    case (Inl e)
    then show ?thesis using cast_int_error [OF Inl] by simp
  next
    case (Inr n)
    then have "\<exists>q. x = Some (Finite q)"
      by (cases "(E, x)" rule: cast_int.cases) auto
    with Cons.prems have "\<exists>x\<in>set xs. \<forall>q. x \<noteq> Some (Finite q)" by auto
    then have "astype_int E xs = Inl ValueError" by (rule Cons.IH)
    with Inr show ?thesis by simp
  qed
qed

lemma all_integers_finite:
  "\<forall>x\<in>set xs. \<exists>q. x = Some (Finite q) \<Longrightarrow>
   all_integers E xs
     = Inr (\<forall>x\<in>set xs. \<exists>q. x = Some (Finite q) \<and> of_int (cast_finite E q) = q)"
proof (induction xs)
  case Nil
  show ?case by (simp add: all_integers_def)
next
  case (Cons x xs)
  from Cons.prems obtain q where q: "x = Some (Finite q)"
    by auto
  have rest: "all_integers E xs
     = Inr (\<forall>x\<in>set xs. \<exists>q. x = Some (Finite q) \<and> of_int (cast_finite E q) = q)"
    using Cons.prems by (intro Cons.IH) simp
  have "(q = of_int (cast_finite E q)) = (of_int (cast_finite E q) = q)"
    by auto
  then show ?case
    using q rest by (simp add: all_integers_step)
qed

lemma in_range_integer:
  "- (2 ^ 63) \<le> q \<Longrightarrow> q < 2 ^ 63 \<Longrightarrow> (of_int (cast_finite E q) = q) = (q \<in> \<int>)"
  by (simp add: cast_finite_def truncate_integer)

text \<open>What the loop body does to a text column, in every case.\<close>

lemma preserve_column_cases:
  assumes "dtype col = Object"
  shows "preserve_column E col =
           (if (\<forall>c\<in>set (cells col). \<exists>q. to_numeric E c = Some (Finite q))
               \<and> (\<exists>c\<in>set (cells col). \<exists>q. to_numeric E c = Some (Finite q)
                      \<and> of_int (cast_finite E q) \<noteq> q)
            then numeric_form E col else col)"
proof (cases "\<forall>c\<in>set (cells col). \<exists>q. to_numeric E c = Some (Finite q)")
  case False
  then have "\<exists>x\<in>set (map (to_numeric E) (cells col)). \<forall>q. x \<noteq> Some (Finite q)"
    by auto
  then have "astype_int E (map (to_numeric E) (cells col)) = Inl ValueError"
    by (rule astype_int_not_finite)
  then have "preserve_column E col = col"
    by (simp add: preserve_column_def Let_def all_integers_def)
  with False show ?thesis by auto
next
  case True
  let ?numeric = "map (to_numeric E) (cells col)"
  let ?fraction = "\<exists>c\<in>set (cells col). \<exists>q. to_numeric E c = Some (Finite q)
                      \<and> of_int (cast_finite E q) \<noteq> q"
  have some: "\<forall>c\<in>set (cells col). c \<noteq> NaN \<longrightarrow> to_numeric E c \<noteq> None"
    using True by auto
  have count: "length (filter (\<lambda>x. x \<noteq> None) ?numeric)
                 = length (filter (\<lambda>c. c \<noteq> NaN) (cells col))"
    using some by (rule coerced_count)
  have "\<forall>x\<in>set ?numeric. \<exists>q. x = Some (Finite q)"
    using True by auto
  then have "all_integers E ?numeric
     = Inr (\<forall>x\<in>set ?numeric. \<exists>q. x = Some (Finite q) \<and> of_int (cast_finite E q) = q)"
    by (rule all_integers_finite)
  moreover have "(\<forall>x\<in>set ?numeric. \<exists>q. x = Some (Finite q) \<and> of_int (cast_finite E q) = q)
                   = (\<not> ?fraction)"
    using True by fastforce
  ultimately have ints: "all_integers E ?numeric = Inr (\<not> ?fraction)"
    by (simp only:)
  show ?thesis
  proof (cases ?fraction)
    case fr: True
    then obtain c q where "c \<in> set (cells col)" and "to_numeric E c = Some (Finite q)"
      by auto
    then have "\<exists>x\<in>set ?numeric. x \<noteq> None"
      by force
    then have notall: "\<not> list_all (\<lambda>x. x = None) ?numeric"
      by (simp only: list_all_iff) blast
    from ints fr have "all_integers E ?numeric = Inr False" by (simp only: not_True_eq_False)
    then have p: "preserve_column E col = numeric_form E col"
      using assms notall count by (simp add: preserve_column_def Let_def)
    have both: "(\<forall>c\<in>set (cells col). \<exists>q. to_numeric E c = Some (Finite q)) \<and> ?fraction"
      using True fr by (rule conjI)
    show ?thesis by (simp only: if_P [OF both] p)
  next
    case nf: False
    from ints nf have "all_integers E ?numeric = Inr True" by (simp only: not_False_eq_True)
    then have p: "preserve_column E col = col"
      by (simp add: preserve_column_def Let_def)
    have neither: "\<not> ((\<forall>c\<in>set (cells col). \<exists>q. to_numeric E c = Some (Finite q)) \<and> ?fraction)"
      using nf by blast
    show ?thesis by (simp only: if_not_P [OF neither] p)
  qed
qed

lemma sample_cast: "cast_finite sample_env (3 / 2) = 1"
  by code_simp

text \<open>Columns of the specification's examples: fractional values become numeric,
  integer-looking identifiers stay text.\<close>

lemma sample_fractional_column:
  "preserve_column sample_env \<lparr>name = ''x'', dtype = Object, cells = [StrV ''1.5'', StrV ''2.25'']\<rparr>
     = \<lparr>name = ''x'', dtype = Float64,
        cells = [FloatV (Finite (3 / 2)), FloatV (Finite (9 / 4))]\<rparr>"
  by code_simp

lemma sample_identifier_column:
  "preserve_column sample_env \<lparr>name = ''x'', dtype = Object, cells = [StrV ''007'']\<rparr>
     = \<lparr>name = ''x'', dtype = Object, cells = [StrV ''007'']\<rparr>"
  by code_simp

lemma sample_partial_column:
  "preserve_column sample_env \<lparr>name = ''x'', dtype = Object, cells = [StrV ''1.5'', StrV ''bad'']\<rparr>
     = \<lparr>name = ''x'', dtype = Object, cells = [StrV ''1.5'', StrV ''bad'']\<rparr>"
  by code_simp

lemma sample_single_fraction:
  "preserve_column sample_env \<lparr>name = ''price'', dtype = Object, cells = [StrV ''1.5'']\<rparr>
     = \<lparr>name = ''price'', dtype = Float64, cells = [FloatV (Finite (3 / 2))]\<rparr>"
  by code_simp

text \<open>
  Claim C2. The code breaks the claim on the text column \<^verbatim>\<open>['1.5', NaN]\<close>: the only
  value present coerces to 1.5, which is not equal to its integer cast, so the claim has
  the column replaced by its numeric form. The all-integers check raises in
  \<^verbatim>\<open>astype(int)\<close> on the NaN, before the \<^verbatim>\<open>notna()\<close> mask has any effect, the handler of the
  loop body skips the column, and it stays text. Without the missing value the same
  column is replaced.
\<close>
theorem fractional_column_with_missing_value_kept_as_text:
  "dtype (columns priced ! 0) = Object
   \<and> cells (columns priced ! 0) = [StrV ''1.5'', NaN]
   \<and> to_numeric sample_env (StrV ''1.5'') = Some (Finite (3 / 2))
   \<and> rat_of_int (cast_finite sample_env (3 / 2)) \<noteq> 3 / 2
   \<and> all_integers sample_env (map (to_numeric sample_env) [StrV ''1.5'', NaN]) = Inl ValueError
   \<and> preserve_numeric_precision sample_env priced = Inr priced
   \<and> preserve_column sample_env \<lparr>name = ''price'', dtype = Object, cells = [StrV ''1.5'']\<rparr>
       = \<lparr>name = ''price'', dtype = Float64, cells = [FloatV (Finite (3 / 2))]\<rparr>"
proof -
  have "dtype (columns priced ! 0) = Object" "cells (columns priced ! 0) = [StrV ''1.5'', NaN]"
    by (simp_all add: priced_def)
  moreover have "rat_of_int (cast_finite sample_env (3 / 2)) \<noteq> 3 / 2"
    by (simp add: sample_cast)
  moreover have "all_integers sample_env (map (to_numeric sample_env) [StrV ''1.5'', NaN])
                   = Inl ValueError"
    by (rule all_integers_missing) simp
  ultimately show ?thesis
    using sample_priced_unchanged sample_one_and_a_half sample_single_fraction
    by (simp only: simp_thms)
qed

section \<open>Properties of the orchestrator\<close>


lemma valid_needs_source:
  "validate_conversion E fs csv_path xlsx_path = Inr v \<Longrightarrow> is_valid v \<Longrightarrow>
   fs csv_path \<noteq> None"
  by (auto simp: validate_conversion_def validate_try_def read_csv_with_encoding_def
        detect_file_encoding_def is_valid_def all_false_def logger_def
        split: option.splits if_splits)










text \<open>
  Claim C8. When the read yields a table with zero rows, and when a zero-byte file's
  read fails, \<^verbatim>\<open>process_csv_file\<close> returns false and the file system is as before: no
  artifact has been written and the original has not been deleted.
\<close>
theorem process_csv_file_skips_empty:
  "(read_csv_with_encoding E fs file_path = Inr (Some df) \<and> nrows df = 0 \<longrightarrow>
      process_csv_file E fs file_path = (Inr False, fs))
   \<and> (fs file_path = Some [] \<and> read_csv_with_encoding E fs file_path = Inr None \<longrightarrow>
      process_csv_file E fs file_path = (Inr False, fs))"
  by (simp add: process_csv_file_def empty_def split: sum.splits)

lemma sample_read_header_only:
  "fs p = Some csv_header_only \<Longrightarrow>
   read_csv_with_encoding sample_env fs p = Inr (Some no_rows)"
  by (simp add: read_csv_with_encoding_def detect_file_encoding_def encodings_to_try_def
        try_encoding_def sample_env_def sample_read_csv_def csv_ok_def csv_header_only_def)

theorem process_csv_file_skips_empty_witness:
  "read_csv_with_encoding sample_env [report_csv \<mapsto> csv_header_only] report_csv = Inr (Some no_rows)
   \<and> nrows no_rows = 0
   \<and> process_csv_file sample_env [report_csv \<mapsto> csv_header_only] report_csv
       = (Inr False, [report_csv \<mapsto> csv_header_only])
   \<and> read_csv_with_encoding sample_env [report_csv \<mapsto> []] report_csv = Inr None
   \<and> process_csv_file sample_env [report_csv \<mapsto> []] report_csv = (Inr False, [report_csv \<mapsto> []])"
proof -
  have h: "read_csv_with_encoding sample_env [report_csv \<mapsto> csv_header_only] report_csv
             = Inr (Some no_rows)"
    by (rule sample_read_header_only) simp
  have z: "nrows no_rows = 0"
    by (simp add: no_rows_def)
  have n: "read_csv_with_encoding sample_env [report_csv \<mapsto> []] report_csv = Inr None"
    by (rule sample_read_empty) simp
  show ?thesis
    using h z n
      process_csv_file_skips_empty [of sample_env "[report_csv \<mapsto> csv_header_only]" report_csv no_rows]
      process_csv_file_skips_empty [of sample_env "[report_csv \<mapsto> []]" report_csv no_rows]
    by simp
qed

end
